theory Spec2Isabelle
  imports Main
begin

section \<open>The export script and its environment\<close>

text \<open>
  The repository is one script, \<^verbatim>\<open>export_decomp.py\<close>, run inside a host application.
  The script has no functions of its own: it is a straight line of calls into the host,
  one \<^verbatim>\<open>with\<close> block holding a \<^verbatim>\<open>for\<close> loop, and two final calls. The embedding
  follows it statement by statement. Everything outside the script (the host's program
  object and decompiler, the file system, standard output) is a component of an explicit
  world, and every call that can raise returns a sum whose left side is the exception.
\<close>

subsection \<open>Exceptions\<close>

datatype error =
    HostError string      \<comment> \<open>an exception raised inside a host call\<close>
  | OSError string        \<comment> \<open>raised by \<^verbatim>\<open>open\<close> or \<^verbatim>\<open>write\<close>\<close>
  | ValueError string     \<comment> \<open>Python's answer to a write on a closed file\<close>

subsection \<open>Host objects\<close>

text \<open>
  What \<^verbatim>\<open>decompileFunction\<close> returns: \<^verbatim>\<open>decompileCompleted()\<close> and the outcome of
  \<^verbatim>\<open>getDecompiledFunction().getC()\<close>.
\<close>

record decompile_results =
  decompileCompleted :: bool
  getC :: "error + string"

text \<open>
  The host's answers to the calls the script makes. \<open>'f\<close> is the type of function
  objects. \<open>getLanguageID\<close> is the string the f-string formats the identifier to, and
  \<open>getFunctions\<close> stands for \<^verbatim>\<open>getFunctionManager().getFunctions(True)\<close>, its iterator
  read off as a list. \<open>openProgram\<close> returns a value that the script discards.
\<close>

record 'f host =
  getName :: "error + string"
  openProgram :: "error + bool"
  getLanguageID :: "error + string"
  getFunctions :: "error + 'f list"
  decompileFunction :: "'f \<Rightarrow> error + decompile_results"
  dispose :: "error + unit"

subsection \<open>Events and the world\<close>

text \<open>
  One event per call the script makes, recorded when the call is made, and one event
  \<open>Raised e\<close> when a call raises \<open>e\<close>.
\<close>

datatype 'f event =
    GetName
  | NewDecompInterface
  | OpenProgram
  | NewConsoleTaskMonitor
  | OpenFile string
  | WriteFile string
  | CloseFile
  | GetLanguageID
  | GetFunctions
  | DecompileFunction 'f
  | DecompileCompleted 'f
  | GetC 'f
  | Print string
  | Dispose
  | Raised error

text \<open>
  The world: the host's \<^verbatim>\<open>currentProgram\<close> with its decompiler, the operating system's
  verdict on opening a path for writing and on appending data to a file with given
  contents (\<open>None\<close> is success), the files, the set of paths open for writing, standard
  output, and the calls made so far.
\<close>

record 'f world =
  currentProgram :: "'f host"
  open_error :: "string \<Rightarrow> error option"
  write_error :: "string \<Rightarrow> string \<Rightarrow> error option"
  files :: "string \<rightharpoonup> string"
  opened :: "string set"
  stdout :: string
  trace :: "'f event list"

type_synonym ('f, 'a) prog = "'f world \<Rightarrow> (error + 'a) \<times> 'f world"

definition emit :: "'f event \<Rightarrow> 'f world \<Rightarrow> 'f world" where
  "emit ev w = w\<lparr>trace := trace w @ [ev]\<rparr>"

text \<open>Sequencing: an exception ends the computation, nothing catches it.\<close>

definition andthen :: "('f, 'a) prog \<Rightarrow> ('a \<Rightarrow> ('f, 'b) prog) \<Rightarrow> ('f, 'b) prog" where
  "andthen m k w = (case m w of (Inl e, w1) \<Rightarrow> (Inl e, w1) | (Inr a, w1) \<Rightarrow> k a w1)"

definition raise :: "error \<Rightarrow> ('f, 'a) prog" where
  "raise e w = (Inl e, emit (Raised e) w)"

text \<open>A host call: the event is recorded and the host's answer is the result.\<close>

definition host_call :: "'f event \<Rightarrow> ('f host \<Rightarrow> error + 'a) \<Rightarrow> ('f, 'a) prog" where
  "host_call ev answer w =
     (let w1 = emit ev w in
      case answer (currentProgram w1) of
        Inl e \<Rightarrow> raise e w1
      | Inr a \<Rightarrow> (Inr a, w1))"

subsection \<open>Files and standard output\<close>

definition content :: "'f world \<Rightarrow> string \<Rightarrow> string" where
  "content w p = (case files w p of None \<Rightarrow> [] | Some c \<Rightarrow> c)"

text \<open>\<^verbatim>\<open>open(p, "w")\<close>: on success the file exists, is empty and is open.\<close>

definition open_w :: "string \<Rightarrow> ('f, unit) prog" where
  "open_w p w =
     (let w1 = emit (OpenFile p) w in
      case open_error w1 p of
        Some e \<Rightarrow> raise e w1
      | None \<Rightarrow> (Inr (), w1\<lparr>files := (files w1)(p \<mapsto> []), opened := insert p (opened w1)\<rparr>))"

text \<open>
  \<^verbatim>\<open>f.write(s)\<close>: appends \<open>s\<close>, or raises and leaves the file as it was. A write to a
  file that is not open raises \<open>ValueError\<close>.
\<close>

definition file_write :: "string \<Rightarrow> string \<Rightarrow> ('f, unit) prog" where
  "file_write p s w =
     (let w1 = emit (WriteFile s) w in
      if p \<notin> opened w1 then raise (ValueError ''I/O operation on closed file.'') w1
      else case write_error w1 (content w1 p) s of
        Some e \<Rightarrow> raise e w1
      | None \<Rightarrow> (Inr (), w1\<lparr>files := (files w1)(p \<mapsto> content w1 p @ s)\<rparr>))"

definition file_close :: "string \<Rightarrow> 'f world \<Rightarrow> 'f world" where
  "file_close p w = (let w1 = emit CloseFile w in w1\<lparr>opened := opened w1 - {p}\<rparr>)"

text \<open>
  \<^verbatim>\<open>with open(p, "w") as f: body\<close>. If \<^verbatim>\<open>open\<close> raises, the block is not entered.
  Otherwise the file is closed when the body ends, normally or by an exception, and the
  body's outcome is the outcome of the statement.
\<close>

definition with_open :: "string \<Rightarrow> (string \<Rightarrow> ('f, 'a) prog) \<Rightarrow> ('f, 'a) prog" where
  "with_open p body w =
     (case open_w p w of
        (Inl e, w1) \<Rightarrow> (Inl e, w1)
      | (Inr u, w1) \<Rightarrow> (case body p w1 of (r, w2) \<Rightarrow> (r, file_close p w2)))"

definition print_line :: "string \<Rightarrow> ('f, unit) prog" where
  "print_line s w =
     (let w1 = emit (Print s) w in (Inr (), w1\<lparr>stdout := stdout w1 @ s @ ''\<newline>''\<rparr>))"

subsection \<open>The script\<close>

definition output_dir :: string where
  "output_dir = ''/Users/inoki/Builds/srcs/Rosetta2''"

text \<open>\<^verbatim>\<open>os.path.join(a, b)\<close> of \<^verbatim>\<open>posixpath\<close>, for two arguments.\<close>

definition join :: "string \<Rightarrow> string \<Rightarrow> string" where
  "join a b =
     (if take 1 b = ''/'' then b
      else if a = [] \<or> last a = CHR ''/'' then a @ b
      else a @ ''/'' @ b)"

definition output_file :: "string \<Rightarrow> string" where
  "output_file program_name = join output_dir (program_name @ ''_decomp.c'')"

text \<open>The \<^verbatim>\<open>for\<close> loop: the body runs on each element in turn until one raises.\<close>

fun for_loop :: "('x \<Rightarrow> ('f, unit) prog) \<Rightarrow> 'x list \<Rightarrow> ('f, unit) prog" where
  "for_loop body [] w = (Inr (), w)"
| "for_loop body (x # xs) w =
     (case body x w of
        (Inl e, w1) \<Rightarrow> (Inl e, w1)
      | (Inr u, w1) \<Rightarrow> for_loop body xs w1)"

text \<open>Lines 24 to 28: the body of the loop, for the function \<open>func\<close> and the file \<open>f\<close>.\<close>

definition loop_body :: "string \<Rightarrow> 'f \<Rightarrow> ('f, unit) prog" where
  "loop_body f func =
     andthen (host_call (DecompileFunction func) (\<lambda>h. decompileFunction h func)) (\<lambda>result.
     andthen (host_call (DecompileCompleted func) (\<lambda>h. Inr (decompileCompleted result)))
       (\<lambda>completed.
     if completed then
       andthen (host_call (GetC func) (\<lambda>h. getC result)) (\<lambda>decompiled_code.
       andthen (file_write f decompiled_code) (\<lambda>u.
       file_write f ''\<newline>\<newline>''))
     else (\<lambda>w. (Inr (), w))))"

text \<open>Lines 19 to 28: the body of the \<^verbatim>\<open>with\<close> block.\<close>

definition with_body :: "string \<Rightarrow> string \<Rightarrow> ('f, unit) prog" where
  "with_body program_name f =
     andthen (file_write f (''// Decompiled code for '' @ program_name @ ''\<newline>'')) (\<lambda>u.
     andthen (host_call GetLanguageID getLanguageID) (\<lambda>language_id.
     andthen (file_write f (''// Language: '' @ language_id @ ''\<newline>\<newline>'')) (\<lambda>u.
     andthen (host_call GetFunctions getFunctions) (\<lambda>functions.
     for_loop (loop_body f) functions))))"

text \<open>Lines 7 to 16: everything before the \<^verbatim>\<open>with\<close> statement; the result is the program name.\<close>

definition script_prelude :: "('f, string) prog" where
  "script_prelude =
     andthen (host_call GetName getName) (\<lambda>program_name.
     andthen (host_call NewDecompInterface (\<lambda>h. Inr ())) (\<lambda>decomp_interface.
     andthen (host_call OpenProgram openProgram) (\<lambda>ignored.
     andthen (host_call NewConsoleTaskMonitor (\<lambda>h. Inr ())) (\<lambda>monitor.
     (\<lambda>w. (Inr program_name, w))))))"

text \<open>Lines 30 and 31: the message and the release of the decompiler.\<close>

definition script_epilogue :: "string \<Rightarrow> ('f, unit) prog" where
  "script_epilogue program_name =
     andthen (print_line (''Decompiled code written to '' @ output_file program_name)) (\<lambda>u.
     host_call Dispose dispose)"

text \<open>The whole script.\<close>

definition export_decomp :: "('f, unit) prog" where
  "export_decomp =
     andthen script_prelude (\<lambda>program_name.
     andthen (with_open (output_file program_name) (with_body program_name)) (\<lambda>u.
     script_epilogue program_name))"

text \<open>The calls a run made: what it added to the calls made before it.\<close>

definition new_events :: "'f world \<Rightarrow> 'f world \<Rightarrow> 'f event list" where
  "new_events w w' = drop (length (trace w)) (trace w')"

subsection \<open>What a run should produce\<close>

text \<open>
  The text the host returns for one function: one block when the decompilation completed
  and its C text could be read, none otherwise.
\<close>

definition decompiled_block :: "'f host \<Rightarrow> 'f \<Rightarrow> string list" where
  "decompiled_block h func =
     (case decompileFunction h func of
        Inl e \<Rightarrow> []
      | Inr result \<Rightarrow>
          if decompileCompleted result
          then (case getC result of Inl e \<Rightarrow> [] | Inr c \<Rightarrow> [c])
          else [])"

definition decompiled_blocks :: "'f host \<Rightarrow> 'f list \<Rightarrow> string list" where
  "decompiled_blocks h functions = concat (map (decompiled_block h) functions)"

fun decompile_requests :: "'f event list \<Rightarrow> 'f list" where
  "decompile_requests [] = []"
| "decompile_requests (DecompileFunction func # evs) = func # decompile_requests evs"
| "decompile_requests (ev # evs) = decompile_requests evs"

fun written :: "'f event list \<Rightarrow> string list" where
  "written [] = []"
| "written (WriteFile s # evs) = s # written evs"
| "written (ev # evs) = written evs"

fun raised :: "'f event list \<Rightarrow> error list" where
  "raised [] = []"
| "raised (Raised e # evs) = e # raised evs"
| "raised (ev # evs) = raised evs"

definition success_events :: "'f host \<Rightarrow> 'f \<Rightarrow> 'f event list" where
  "success_events h func =
     [DecompileFunction func, DecompileCompleted func] @
     concat (map (\<lambda>c. [GetC func, WriteFile c, WriteFile ''\<newline>\<newline>'']) (decompiled_block h func))"

definition loop_events :: "'f host \<Rightarrow> 'f list \<Rightarrow> 'f event list" where
  "loop_events h functions = concat (map (success_events h) functions)"

definition blocks_text :: "string list \<Rightarrow> string" where
  "blocks_text blocks = concat (map (\<lambda>c. c @ ''\<newline>\<newline>'') blocks)"



subsection \<open>An example world\<close>

text \<open>
  A program with three functions. The decompilation of the second does not complete; the
  operating system refuses nothing.
\<close>

definition example_host :: "nat host" where
  "example_host =
     \<lparr>getName = Inr ''prog'', openProgram = Inr True,
      getLanguageID = Inr ''x86:LE:64:default'', getFunctions = Inr [10, 20, 30],
      decompileFunction = (\<lambda>func.
        if func = 20 then Inr \<lparr>decompileCompleted = False, getC = Inl (HostError ''no result'')\<rparr>
        else Inr \<lparr>decompileCompleted = True,
                  getC = Inr (if func = 10 then ''int a(void) {}'' else ''int c(void) {}'')\<rparr>),
      dispose = Inr ()\<rparr>"

definition example_world :: "nat world" where
  "example_world =
     \<lparr>currentProgram = example_host, open_error = (\<lambda>p. None), write_error = (\<lambda>c s. None),
      files = Map.empty, opened = {}, stdout = [], trace = []\<rparr>"

fun opened_paths :: "'f event list \<Rightarrow> string list" where
  "opened_paths [] = []"
| "opened_paths (OpenFile p # evs) = p # opened_paths evs"
| "opened_paths (ev # evs) = opened_paths evs"




definition empty_host :: "nat host" where
  "empty_host = example_host\<lparr>getFunctions := Inr []\<rparr>"

definition empty_world :: "nat world" where
  "empty_world = example_world\<lparr>currentProgram := empty_host\<rparr>"

definition failure :: "error + 'a \<Rightarrow> error list" where
  "failure r = (case r of Inl e \<Rightarrow> [e] | Inr a \<Rightarrow> [])"

fun block_event :: "'f event \<Rightarrow> bool" where
  "block_event (WriteFile s) = True"
| "block_event GetLanguageID = True"
| "block_event GetFunctions = True"
| "block_event (DecompileFunction func) = True"
| "block_event (DecompileCompleted func) = True"
| "block_event (GetC func) = True"
| "block_event (Raised e) = True"
| "block_event ev = False"





datatype file_state = BeforeOpen | IsOpen | AfterClose

fun file_step :: "file_state \<Rightarrow> 'f event \<Rightarrow> file_state option" where
  "file_step BeforeOpen (OpenFile p) = Some IsOpen"
| "file_step st (OpenFile p) = None"
| "file_step IsOpen (WriteFile s) = Some IsOpen"
| "file_step st (WriteFile s) = None"
| "file_step IsOpen CloseFile = Some AfterClose"
| "file_step st CloseFile = None"
| "file_step st ev = Some st"

fun file_run :: "file_state \<Rightarrow> 'f event list \<Rightarrow> file_state option" where
  "file_run st [] = Some st"
| "file_run st (ev # evs) =
     (case file_step st ev of None \<Rightarrow> None | Some st' \<Rightarrow> file_run st' evs)"





section \<open>Properties\<close>

subsection \<open>Runs that end without an exception\<close>

lemma decompile_requests_append [simp]:
  "decompile_requests (xs @ ys) = decompile_requests xs @ decompile_requests ys"
  by (induction xs rule: decompile_requests.induct) simp_all

lemma written_append [simp]: "written (xs @ ys) = written xs @ written ys"
  by (induction xs rule: written.induct) simp_all

lemma raised_append [simp]: "raised (xs @ ys) = raised xs @ raised ys"
  by (induction xs rule: raised.induct) simp_all

lemmas prim_defs = andthen_def host_call_def raise_def emit_def file_write_def content_def



lemma blocks_text_append [simp]: "blocks_text (xs @ ys) = blocks_text xs @ blocks_text ys"
  by (simp add: blocks_text_def)







lemma decompile_requests_success_events [simp]:
  "decompile_requests (success_events h func) = [func]"
  by (cases "decompiled_block h func")
     (auto simp: success_events_def decompiled_block_def split: sum.splits if_splits)

lemma written_success_events [simp]:
  "written (success_events h func) =
     concat (map (\<lambda>c. [c, ''\<newline>\<newline>'']) (decompiled_block h func))"
  by (auto simp: success_events_def decompiled_block_def split: sum.splits if_splits)

lemma decompile_requests_loop_events [simp]: "decompile_requests (loop_events h fs) = fs"
  by (induction fs) (simp_all add: loop_events_def)

lemma written_loop_events [simp]:
  "written (loop_events h fs) = concat (map (\<lambda>c. [c, ''\<newline>\<newline>'']) (decompiled_blocks h fs))"
  by (induction fs) (simp_all add: loop_events_def decompiled_blocks_def)

lemma new_events_append [simp]: "new_events w (w\<lparr>trace := trace w @ evs\<rparr>) = evs"
  by (simp add: new_events_def)



lemma opened_paths_append [simp]: "opened_paths (xs @ ys) = opened_paths xs @ opened_paths ys"
  by (induction xs rule: opened_paths.induct) simp_all

lemma opened_paths_loop_events [simp]: "opened_paths (loop_events h fs) = []"
proof (induction fs)
  case Nil
  show ?case by (simp add: loop_events_def)
next
  case (Cons func fs)
  have "opened_paths (success_events h func) = []"
    by (cases "decompiled_block h func")
       (auto simp: success_events_def decompiled_block_def split: sum.splits if_splits)
  with Cons show ?case by (simp add: loop_events_def)
qed


























lemma close_not_block: "list_all block_event evs \<Longrightarrow> CloseFile \<notin> set evs"
  by (induction evs) auto

lemma file_run_Raised [simp]: "file_run st (map Raised es) = Some st"
  by (induction es) (cases st; simp)+

lemma opened_paths_Raised [simp]: "opened_paths (map Raised es) = []"
  by (induction es) simp_all

lemma raised_Raised [simp]: "raised (map Raised es) = es"
  by (induction es) simp_all

lemma failure_simps [simp]: "failure (Inl e) = [e]" "failure (Inr a) = []"
  by (simp_all add: failure_def)






section \<open>The claims\<close>










text \<open>
  C9. When the iterator yields no function and no call raises, the run ends without an
  exception, the file holds the two header lines and the empty line and nothing more, and
  the completion message is printed.
\<close>

theorem run_without_functions:
  assumes "getName (currentProgram w) = Inr n"
    and "openProgram (currentProgram w) = Inr b"
    and "getLanguageID (currentProgram w) = Inr l"
    and "getFunctions (currentProgram w) = Inr []"
    and "dispose (currentProgram w) = Inr ()"
    and "open_error w (output_file n) = None"
    and "write_error w [] (''// Decompiled code for '' @ n @ ''\<newline>'') = None"
    and "write_error w (''// Decompiled code for '' @ n @ ''\<newline>'')
           (''// Language: '' @ l @ ''\<newline>\<newline>'') = None"
  shows "fst (export_decomp w) = Inr () \<and>
         files (snd (export_decomp w)) (output_file n) =
           Some (''// Decompiled code for '' @ n @ ''\<newline>'' @ ''// Language: '' @ l @ ''\<newline>'' @ ''\<newline>'') \<and>
         stdout (snd (export_decomp w)) =
           stdout w @ ''Decompiled code written to '' @ output_file n @ ''\<newline>''"
  using assms
  by (simp add: export_decomp_def script_prelude_def with_open_def open_w_def with_body_def
      script_epilogue_def print_line_def file_close_def prim_defs Let_def)



theorem run_without_functions_witness:
  "fst (export_decomp empty_world) = Inr () \<and>
   files (snd (export_decomp empty_world)) (output_file ''prog'') =
     Some ''// Decompiled code for prog\<newline>// Language: x86:LE:64:default\<newline>\<newline>'' \<and>
   stdout (snd (export_decomp empty_world)) =
     ''Decompiled code written to /Users/inoki/Builds/srcs/Rosetta2/prog_decomp.c\<newline>''"
proof -
  have a: "getName (currentProgram empty_world) = Inr ''prog''"
    "openProgram (currentProgram empty_world) = Inr True"
    "getLanguageID (currentProgram empty_world) = Inr ''x86:LE:64:default''"
    "getFunctions (currentProgram empty_world) = Inr []"
    "dispose (currentProgram empty_world) = Inr ()"
    "open_error empty_world (output_file ''prog'') = None"
    "write_error empty_world [] (''// Decompiled code for '' @ ''prog'' @ ''\<newline>'') = None"
    "write_error empty_world (''// Decompiled code for '' @ ''prog'' @ ''\<newline>'')
           (''// Language: '' @ ''x86:LE:64:default'' @ ''\<newline>\<newline>'') = None"
    "stdout empty_world = []"
    by (simp_all add: empty_world_def empty_host_def example_world_def example_host_def)
  have o: "output_file ''prog'' = ''/Users/inoki/Builds/srcs/Rosetta2/prog_decomp.c''"
    by (simp add: output_file_def join_def output_dir_def)
  from run_without_functions [OF a(1-8)] show ?thesis
    unfolding a(9) o by simp
qed









end
